theory Spec2Isabelle
  imports Main "HOL-Library.Sublist"
begin

section \<open>Python values\<close>

text \<open>
  A Python \<open>str\<close> is a sequence of Unicode code points, so text is a list of code points.
  The Cyrillic literals of \<open>homework.py\<close> are written out code point by code point;
  \<open>asc\<close> lifts an ASCII literal.
\<close>

type_synonym ustring = "nat list"

definition asc :: "string \<Rightarrow> ustring" where
  "asc s = map of_char s"

text \<open>
  What \<open>response.json()\<close> can return: \<open>None\<close>, \<open>bool\<close>, \<open>int\<close>, \<open>str\<close>, \<open>list\<close>
  and \<open>dict\<close> with \<open>str\<close> keys. A \<open>JDict\<close> lists the items of the dict in insertion order
  and is read with \<open>map_of\<close>. JSON numbers with a fraction (Python \<open>float\<close>) are not part of
  the model.
\<close>

datatype json =
    JNull
  | JBool bool
  | JInt int
  | JStr ustring
  | JList "json list"
  | JDict "(ustring \<times> json) list"

text \<open>Truth value testing, as \<open>if x:\<close>, \<open>not x\<close>, \<open>x or y\<close> and \<open>all\<close> apply it.\<close>

fun truthy :: "json \<Rightarrow> bool" where
  "truthy JNull = False"
| "truthy (JBool b) = b"
| "truthy (JInt i) = (i \<noteq> 0)"
| "truthy (JStr s) = (s \<noteq> [])"
| "truthy (JList xs) = (xs \<noteq> [])"
| "truthy (JDict kvs) = (kvs \<noteq> [])"

text \<open>\<open>d.get(k)\<close>: the value stored under \<open>k\<close>, or \<open>None\<close> when the key is absent.\<close>

definition dict_get :: "(ustring \<times> json) list \<Rightarrow> ustring \<Rightarrow> json" where
  "dict_get d k = (case map_of d k of None \<Rightarrow> JNull | Some v \<Rightarrow> v)"

fun type_name :: "json \<Rightarrow> ustring" where
  "type_name JNull = asc ''NoneType''"
| "type_name (JBool b) = asc ''bool''"
| "type_name (JInt i) = asc ''int''"
| "type_name (JStr s) = asc ''str''"
| "type_name (JList xs) = asc ''list''"
| "type_name (JDict kvs) = asc ''dict''"

subsection \<open>Exceptions\<close>

text \<open>
  An exception is its class and the text \<open>str(error)\<close> that the poll loop puts into its
  diagnostic message. \<open>OtherException\<close> stands for the classes raised by the libraries
  (\<open>requests\<close>, \<open>telegram\<close>) that the program does not name. All of them are
  subclasses of \<open>Exception\<close>; \<open>KeyboardInterrupt\<close> and \<open>SystemExit\<close>, which end the
  process from outside, are not modelled.
\<close>

datatype exc_class =
    HttpCodeIsNot200
  | TypeError
  | KeyError
  | ValueError
  | AttributeError
  | NameError
  | OtherException

datatype error = Raise exc_class ustring

fun str_error :: "error \<Rightarrow> ustring" where
  "str_error (Raise c t) = t"

text \<open>
  \<open>str\<close> of a \<open>KeyError\<close> with one argument is the \<open>repr\<close> of that argument. The arguments
  in this program are literals without quotes, backslashes or unprintable characters, whose
  \<open>repr\<close> is the text between single quotes.
\<close>

definition quoted :: "ustring \<Rightarrow> ustring" where
  "quoted s = 39 # s @ [39]"

definition key_error :: "ustring \<Rightarrow> error" where
  "key_error msg = Raise KeyError (quoted msg)"

subsection \<open>Formatting values\<close>

fun join :: "ustring \<Rightarrow> ustring list \<Rightarrow> ustring" where
  "join sep [] = []"
| "join sep [x] = x"
| "join sep (x # y # ys) = x @ sep @ join sep (y # ys)"

fun digits :: "nat \<Rightarrow> ustring" where
  "digits n = (if n < 10 then [48 + n] else digits (n div 10) @ [48 + n mod 10])"

declare digits.simps [simp del]

text \<open>
  \<open>repr\<close> of a value. The \<open>repr\<close> of a \<open>str\<close> (quote selection, escapes, the Unicode table of
  printable characters) belongs to the interpreter and is the parameter \<open>R\<close>.
\<close>

fun py_repr :: "(ustring \<Rightarrow> ustring) \<Rightarrow> json \<Rightarrow> ustring" where
  "py_repr R JNull = asc ''None''"
| "py_repr R (JBool b) = (if b then asc ''True'' else asc ''False'')"
| "py_repr R (JInt i) = (if i < 0 then 45 # digits (nat (- i)) else digits (nat i))"
| "py_repr R (JStr s) = R s"
| "py_repr R (JList xs) = asc ''['' @ join (asc '', '') (map (py_repr R) xs) @ asc '']''"
| "py_repr R (JDict kvs) =
     asc ''{'' @ join (asc '', '') (map (\<lambda>(k, v). R k @ asc '': '' @ py_repr R v) kvs) @ asc ''}''"

text \<open>\<open>str(v)\<close>, which an f-string field \<open>{v}\<close> inserts.\<close>

definition py_str :: "(ustring \<Rightarrow> ustring) \<Rightarrow> json \<Rightarrow> ustring" where
  "py_str R v = (case v of JStr s \<Rightarrow> s | _ \<Rightarrow> py_repr R v)"

section \<open>Module constants\<close>

record env =
  PRACTICUM_TOKEN :: "ustring option"
  TELEGRAM_TOKEN :: "ustring option"
  TELEGRAM_CHAT_ID :: "ustring option"
  start_time :: int
  repr_str :: "ustring \<Rightarrow> ustring"
  json_decode_error :: error

text \<open>
  The three tokens are what \<open>os.getenv\<close> returned; \<open>start_time\<close> is \<open>int(time.time())\<close> taken
  once in \<open>main\<close>; \<open>repr_str\<close> is the interpreter's \<open>repr\<close> on \<open>str\<close>; \<open>json_decode_error\<close>
  is the exception that \<open>raise requests.JSONDecodeError(msg)\<close> ends in with the installed
  \<open>requests\<close>.
\<close>

definition RETRY_PERIOD :: nat where
  "RETRY_PERIOD = 600"

definition verdict_approved :: ustring where
  "verdict_approved =
     [1056, 1072, 1073, 1086, 1090, 1072, 32, 1087, 1088, 1086, 1074, 1077, 1088, 1077, 1085,
      1072, 58, 32, 1088, 1077, 1074, 1100, 1102, 1077, 1088, 1091, 32, 1074, 1089, 1105, 32,
      1087, 1086, 1085, 1088, 1072, 1074, 1080, 1083, 1086, 1089, 1100, 46, 32, 1059, 1088,
      1072, 33]"

definition verdict_reviewing :: ustring where
  "verdict_reviewing =
     [1056, 1072, 1073, 1086, 1090, 1072, 32, 1074, 1079, 1103, 1090, 1072, 32, 1085, 1072, 32,
      1087, 1088, 1086, 1074, 1077, 1088, 1082, 1091, 32, 1088, 1077, 1074, 1100, 1102, 1077,
      1088, 1086, 1084, 46]"

definition verdict_rejected :: ustring where
  "verdict_rejected =
     [1056, 1072, 1073, 1086, 1090, 1072, 32, 1087, 1088, 1086, 1074, 1077, 1088, 1077, 1085,
      1072, 58, 32, 1091, 32, 1088, 1077, 1074, 1100, 1102, 1077, 1088, 1072, 32, 1077, 1089,
      1090, 1100, 32, 1079, 1072, 1084, 1077, 1095, 1072, 1085, 1080, 1103, 46]"

definition HOMEWORK_VERDICTS :: "(ustring \<times> ustring) list" where
  "HOMEWORK_VERDICTS =
     [(asc ''approved'', verdict_approved),
      (asc ''reviewing'', verdict_reviewing),
      (asc ''rejected'', verdict_rejected)]"

text \<open>The message literals, in the order of their appearance in the source.\<close>

definition msg_http :: ustring where
  "msg_http =
     [1053, 1077, 1087, 1086, 1076, 1093, 1086, 1076, 1103, 1097, 1080, 1081, 32, 104, 116, 116,
      112, 32, 1086, 1090, 1074, 1077, 1090]"

definition msg_not_dict :: ustring where
  "msg_not_dict =
     [1054, 1090, 1074, 1077, 1090, 32, 65, 80, 73, 32, 1085, 1077, 32, 1103, 1074, 1083, 1103,
      1077, 1090, 1089, 1103, 32, 1089, 1083, 1086, 1074, 1072, 1088, 1077, 1084]"

definition msg_no_current_date :: ustring where
  "msg_no_current_date =
     [1042, 32, 1086, 1090, 1074, 1077, 1090, 1077, 32, 65, 80, 73, 32, 1085, 1077, 1093, 1074,
      1072, 1090, 1072, 1077, 1090, 32, 1082, 1083, 1102, 1095, 1072, 32, 99, 117, 114, 114,
      101, 110, 116, 95, 100, 97, 116, 101]"

definition msg_bad_homeworks :: ustring where
  "msg_bad_homeworks =
     [1053, 1077, 1074, 1077, 1088, 1085, 1099, 1081, 32, 1086, 1090, 1074, 1077, 1090, 32, 65,
      80, 73, 44, 32, 1074, 32, 1089, 1083, 1086, 1074, 1072, 1088, 1077, 32, 1085, 1077, 1090,
      32, 1082, 1083, 1102, 1095, 1072, 32, 104, 111, 109, 101, 119, 111, 114, 107, 115, 32,
      1080, 1083, 1080, 32, 104, 111, 109, 101, 119, 111, 114, 107, 115, 32, 1085, 1077, 32,
      1103, 1074, 1083, 1103, 1077, 1090, 1089, 1103, 32, 108, 105, 115, 116, 40, 41]"

definition msg_bad_status :: ustring where
  "msg_bad_status =
     [1053, 1077, 1086, 1078, 1080, 1076, 1072, 1085, 1085, 1099, 1081, 32, 1089, 1090, 1072,
      1090, 1091, 1089, 32, 1076, 1086, 1084, 1072, 1096, 1082, 1080]"

definition msg_status_changed :: ustring where
  "msg_status_changed =
     [1048, 1079, 1084, 1077, 1085, 1080, 1083, 1089, 1103, 32, 1089, 1090, 1072, 1090, 1091,
      1089, 32, 1087, 1088, 1086, 1074, 1077, 1088, 1082, 1080, 32, 1088, 1072, 1073, 1086,
      1090, 1099, 32, 34]"

definition msg_bad_keys :: ustring where
  "msg_bad_keys =
     [1053, 1077, 1074, 1077, 1088, 1085, 1099, 1077, 32, 1082, 1083, 1102, 1095, 1080, 32,
      1074, 32, 1089, 1083, 1086, 1074, 1072, 1088, 1077, 32, 1076, 1086, 1084, 1072, 1096,
      1082, 1080]"

definition msg_no_env :: ustring where
  "msg_no_env =
     [1054, 1090, 1089, 1091, 1090, 1089, 1090, 1074, 1091, 1102, 1090, 32, 1087, 1077, 1088,
      1077, 1084, 1077, 1085, 1085, 1099, 1077, 32, 1086, 1082, 1088, 1091, 1078, 1077, 1085,
      1080, 1103]"

definition msg_failure :: ustring where
  "msg_failure =
     [1057, 1073, 1086, 1081, 32, 1074, 32, 1088, 1072, 1073, 1086, 1090, 1077, 32, 1087, 1088,
      1086, 1075, 1088, 1072, 1084, 1084, 1099, 58, 32]"

definition log_send_start :: ustring where
  "log_send_start =
     [1047, 1072, 1087, 1091, 1097, 1077, 1085, 1072, 32, 1086, 1090, 1087, 1088, 1072, 1074,
      1082, 1072, 32, 1089, 1086, 1086, 1073, 1097, 1077, 1085, 1080, 1103, 32, 1074, 32, 84,
      101, 108, 101, 103, 114, 97, 109]"

definition log_sent_1 :: ustring where
  "log_sent_1 = [1057, 1086, 1086, 1073, 1097, 1077, 1085, 1080, 1077, 32]"

definition log_sent_2 :: ustring where
  "log_sent_2 =
     [32, 1086, 1090, 1087, 1088, 1072, 1074, 1083, 1077, 1085, 1086, 32, 1085, 1072, 32, 8470]"

definition log_fail_1 :: ustring where
  "log_fail_1 =
     [1053, 1077, 1091, 1076, 1072, 1095, 1085, 1072, 1103, 32, 1086, 1090, 1087, 1088, 1072,
      1074, 1082, 1072, 32, 1089, 1086, 1086, 1073, 1097, 1077, 1085, 1080, 1103, 58, 32]"

definition log_fail_2 :: ustring where
  "log_fail_2 = [32, 1086, 1096, 1080, 1073, 1082, 1072, 32]"

section \<open>The functions of \<open>homework.py\<close>\<close>

subsection \<open>\<open>check_tokens\<close>\<close>

definition token_set :: "ustring option \<Rightarrow> bool" where
  "token_set t = (case t of None \<Rightarrow> False | Some s \<Rightarrow> s \<noteq> [])"

definition check_tokens :: "env \<Rightarrow> bool" where
  "check_tokens e =
     (token_set (PRACTICUM_TOKEN e) \<and> token_set (TELEGRAM_CHAT_ID e) \<and> token_set (TELEGRAM_TOKEN e))"

subsection \<open>\<open>send_message\<close>\<close>

text \<open>
  What \<open>bot.send_message\<close> did: it returned, it raised a \<open>telegram.error.TelegramError\<close>
  (or a subclass of it) with the given text, or it raised an exception of another class.
  \<open>send_message\<close> returns the lines it logged and the exception that leaves it, if any.
\<close>

datatype delivery = Delivered | TelegramError ustring | OtherFailure error

datatype level = DEBUG | INFO | ERROR | CRITICAL

definition str_token :: "ustring option \<Rightarrow> ustring" where
  "str_token t = (case t of None \<Rightarrow> asc ''None'' | Some s \<Rightarrow> s)"

definition send_message ::
  "env \<Rightarrow> delivery \<Rightarrow> ustring \<Rightarrow> (level \<times> ustring) list \<times> error option" where
  "send_message e d message =
     (case d of
        Delivered \<Rightarrow>
          ([(DEBUG, log_send_start),
            (INFO, log_sent_1 @ message @ log_sent_2 @ str_token (TELEGRAM_CHAT_ID e))], None)
      | TelegramError t \<Rightarrow>
          ([(DEBUG, log_send_start),
            (ERROR, log_fail_1 @ message @ log_fail_2 @ t)], None)
      | OtherFailure x \<Rightarrow> ([(DEBUG, log_send_start)], Some x))"

subsection \<open>\<open>get_api_answer\<close>\<close>

text \<open>
  What the network did with the one request of a cycle: \<open>requests.get\<close> raised, or it
  returned a response with a status code whose body \<open>response.json()\<close> decodes to a value
  or fails to decode.
\<close>

datatype http_result = RequestFailed error | Response nat "json option"

definition get_api_answer :: "env \<Rightarrow> http_result \<Rightarrow> error + json" where
  "get_api_answer e h =
     (case h of
        RequestFailed x \<Rightarrow> Inl x
      | Response status_code body \<Rightarrow>
          if status_code \<noteq> 200 then Inl (Raise HttpCodeIsNot200 msg_http)
          else (case body of None \<Rightarrow> Inl (json_decode_error e) | Some v \<Rightarrow> Inr v))"

subsection \<open>\<open>check_response\<close>\<close>

text \<open>The result \<open>JNull\<close> is the \<open>None\<close> that the function returns for an empty list.\<close>

definition check_response :: "json \<Rightarrow> error + json" where
  "check_response response =
     (case response of
        JDict d \<Rightarrow>
          (let homeworks = dict_get d (asc ''homeworks'') in
           if \<not> truthy (dict_get d (asc ''current_date''))
           then Inl (key_error msg_no_current_date)
           else (case homeworks of
                   JList hs \<Rightarrow> (case hs of [] \<Rightarrow> Inr JNull | h # _ \<Rightarrow> Inr h)
                 | _ \<Rightarrow> Inl (Raise TypeError msg_bad_homeworks)))
      | _ \<Rightarrow> Inl (Raise TypeError msg_not_dict))"

subsection \<open>\<open>parse_status\<close>\<close>

text \<open>
  \<open>homework_status in HOMEWORK_VERDICTS\<close> hashes the status: a list or a dict is unhashable
  and raises \<open>TypeError\<close> (with the text of CPython up to 3.13); any other value that is
  not one of the three keys is not in the table.
\<close>

definition verdict_of :: "json \<Rightarrow> error + ustring option" where
  "verdict_of homework_status =
     (case homework_status of
        JStr s \<Rightarrow> Inr (map_of HOMEWORK_VERDICTS s)
      | JList xs \<Rightarrow> Inl (Raise TypeError (asc ''unhashable type: '' @ quoted (asc ''list'')))
      | JDict kvs \<Rightarrow> Inl (Raise TypeError (asc ''unhashable type: '' @ quoted (asc ''dict'')))
      | _ \<Rightarrow> Inr None)"

definition parse_status :: "env \<Rightarrow> json \<Rightarrow> error + ustring" where
  "parse_status e homework =
     (case homework of
        JDict d \<Rightarrow>
          (let homework_name = dict_get d (asc ''homework_name'');
               homework_status = dict_get d (asc ''status'')
           in if truthy homework_name \<and> truthy homework_status
              then (case verdict_of homework_status of
                      Inl x \<Rightarrow> Inl x
                    | Inr None \<Rightarrow> Inl (Raise ValueError msg_bad_status)
                    | Inr (Some verdict) \<Rightarrow>
                        Inr (msg_status_changed @ py_str (repr_str e) homework_name
                             @ [34, 46, 32] @ verdict))
              else Inl (key_error msg_bad_keys))
      | _ \<Rightarrow>
          Inl (Raise AttributeError
                 (quoted (type_name homework) @ asc '' object has no attribute ''
                  @ quoted (asc ''get''))))"

subsection \<open>\<open>main\<close>\<close>

text \<open>
  The logger calls of \<open>main\<close>, \<open>check_response\<close> and \<open>parse_status\<close> change neither the
  state nor the control flow and are left out; so is the construction of \<open>telegram.Bot\<close>,
  which precedes the loop.

  The three variables that the loop carries from one cycle to the next. Python's \<open>None\<close> is
  \<open>JNull\<close> in the first two and \<open>None\<close> in the third, which only ever holds a \<open>str\<close>.
\<close>

record poll_state =
  last_check_time :: json
  last_homework_status :: json
  last_telegram_message :: "ustring option"

definition initial_state :: poll_state where
  "initial_state =
     \<lparr>last_check_time = JNull, last_homework_status = JNull, last_telegram_message = None\<rparr>"

text \<open>
  What the world does during one cycle: the network's answer, the outcome of the delivery
  attempted in the \<open>try\<close> block and the outcome of the one attempted in the \<open>except\<close> block
  (each read only if that call is made).
\<close>

record cycle_input =
  http :: http_result
  try_delivery :: delivery
  except_delivery :: delivery

datatype event = ApiRequest json | NotifierCall ustring | Sleep nat

record outcome =
  state :: poll_state
  trace :: "event list"
  failure :: "error option"

text \<open>\<open>x[k]\<close> on a dict; on the other values the subscription with a \<open>str\<close> is a \<open>TypeError\<close>.\<close>

definition subscript :: "json \<Rightarrow> ustring \<Rightarrow> error + json" where
  "subscript x k =
     (case x of
        JDict d \<Rightarrow> (case map_of d k of None \<Rightarrow> Inl (key_error k) | Some v \<Rightarrow> Inr v)
      | _ \<Rightarrow> Inl (Raise TypeError (quoted (type_name x) @ asc '' object is not subscriptable'')))"

text \<open>\<open>last_check_time or timestamp\<close>.\<close>

definition cursor :: "env \<Rightarrow> poll_state \<Rightarrow> json" where
  "cursor e st = (if truthy (last_check_time st) then last_check_time st else JInt (start_time e))"

text \<open>
  The body of the \<open>try\<close> block. \<open>failure\<close> is the exception that leaves the block, which the
  \<open>except Exception\<close> clause then receives.
\<close>

definition try_block :: "env \<Rightarrow> poll_state \<Rightarrow> cycle_input \<Rightarrow> outcome" where
  "try_block e st inp =
     (let req = [ApiRequest (cursor e st)] in
      case get_api_answer e (http inp) of
        Inl x \<Rightarrow> \<lparr>state = st, trace = req, failure = Some x\<rparr>
      | Inr response \<Rightarrow>
          (case check_response response of
             Inl x \<Rightarrow> \<lparr>state = st, trace = req, failure = Some x\<rparr>
           | Inr homework \<Rightarrow>
               if truthy homework then
                 (case subscript response (asc ''current_date'') of
                    Inl x \<Rightarrow> \<lparr>state = st, trace = req, failure = Some x\<rparr>
                  | Inr current_date \<Rightarrow>
                      (let st1 = st\<lparr>last_check_time := current_date\<rparr> in
                       case parse_status e homework of
                         Inl x \<Rightarrow> \<lparr>state = st1, trace = req, failure = Some x\<rparr>
                       | Inr message \<Rightarrow>
                           if JStr message \<noteq> last_homework_status st1 then
                             (case subscript homework (asc ''status'') of
                                Inl x \<Rightarrow> \<lparr>state = st1, trace = req, failure = Some x\<rparr>
                              | Inr status \<Rightarrow>
                                  \<lparr>state = st1\<lparr>last_homework_status := status\<rparr>,
                                   trace = req @ [NotifierCall message],
                                   failure = snd (send_message e (try_delivery inp) message)\<rparr>)
                           else \<lparr>state = st1, trace = req, failure = None\<rparr>))
               else \<lparr>state = st, trace = req, failure = None\<rparr>))"

text \<open>
  The \<open>except Exception as error\<close> clause. An exception that leaves \<open>send_message\<close> here
  leaves the loop, before \<open>last_telegram_message\<close> is assigned.
\<close>

definition diagnostic :: "error \<Rightarrow> ustring" where
  "diagnostic x = msg_failure @ str_error x"

definition except_block :: "env \<Rightarrow> poll_state \<Rightarrow> delivery \<Rightarrow> error \<Rightarrow> outcome" where
  "except_block e st d x =
     (let message = diagnostic x in
      if Some message \<noteq> last_telegram_message st then
        (case snd (send_message e d message) of
           Some y \<Rightarrow> \<lparr>state = st, trace = [NotifierCall message], failure = Some y\<rparr>
         | None \<Rightarrow>
             \<lparr>state = st\<lparr>last_telegram_message := Some message\<rparr>,
              trace = [NotifierCall message], failure = None\<rparr>)
      else \<lparr>state = st, trace = [], failure = None\<rparr>)"

text \<open>
  One pass of the \<open>while True\<close> body: \<open>try\<close>, \<open>except\<close>, \<open>finally\<close>. \<open>failure\<close> is now the
  exception that leaves the loop.
\<close>

definition cycle :: "env \<Rightarrow> poll_state \<Rightarrow> cycle_input \<Rightarrow> outcome" where
  "cycle e st inp =
     (let t = try_block e st inp in
      case failure t of
        None \<Rightarrow> t\<lparr>trace := trace t @ [Sleep RETRY_PERIOD]\<rparr>
      | Some x \<Rightarrow>
          (let h = except_block e (state t) (except_delivery inp) x in
           h\<lparr>trace := trace t @ trace h @ [Sleep RETRY_PERIOD]\<rparr>))"

text \<open>
  The loop over the cycles for which the world's behaviour is given; it stops early only
  when an exception leaves a cycle.
\<close>

fun run :: "env \<Rightarrow> poll_state \<Rightarrow> cycle_input list \<Rightarrow> outcome" where
  "run e st [] = \<lparr>state = st, trace = [], failure = None\<rparr>"
| "run e st (inp # inps) =
     (let c = cycle e st inp in
      case failure c of
        Some x \<Rightarrow> c
      | None \<Rightarrow> (let r = run e (state c) inps in r\<lparr>trace := trace c @ trace r\<rparr>))"

definition main :: "env \<Rightarrow> cycle_input list \<Rightarrow> outcome" where
  "main e inps =
     (if \<not> check_tokens e
      then \<lparr>state = initial_state, trace = [], failure = Some (Raise NameError msg_no_env)\<rparr>
      else run e initial_state inps)"

text \<open>The messages handed to \<open>send_message\<close>, in order.\<close>

fun notifier_calls :: "event list \<Rightarrow> ustring list" where
  "notifier_calls [] = []"
| "notifier_calls (NotifierCall m # evs) = m # notifier_calls evs"
| "notifier_calls (ev # evs) = notifier_calls evs"

text \<open>
  The cycles of a list that complete their \<open>try\<close> block without an exception (a
  notification of a verdict, or nothing to do), each started in the state its predecessor
  left.
\<close>

fun no_errors :: "env \<Rightarrow> poll_state \<Rightarrow> cycle_input list \<Rightarrow> bool" where
  "no_errors e st [] = True"
| "no_errors e st (inp # inps) =
     (failure (try_block e st inp) = None \<and> no_errors e (state (cycle e st inp)) inps)"

text \<open>
  The values \<open>last_homework_status\<close> takes in a run: \<open>None\<close> at the start, then a key of
  \<open>HOMEWORK_VERDICTS\<close>.
\<close>

definition status_stored :: "poll_state \<Rightarrow> bool" where
  "status_stored st \<longleftrightarrow>
     last_homework_status st = JNull
     \<or> (\<exists>s verdict. last_homework_status st = JStr s \<and> map_of HOMEWORK_VERDICTS s = Some verdict)"

section \<open>Concrete inputs\<close>

definition env0 :: env where
  "env0 =
     \<lparr>PRACTICUM_TOKEN = Some (asc ''practicum''), TELEGRAM_TOKEN = Some (asc ''telegram''),
      TELEGRAM_CHAT_ID = Some (asc ''42''), start_time = 1000, repr_str = quoted,
      json_decode_error = Raise TypeError (asc ''JSONDecodeError'')\<rparr>"

definition hw1_approved :: "(ustring \<times> json) list" where
  "hw1_approved =
     [(asc ''homework_name'', JStr (asc ''hw1'')), (asc ''status'', JStr (asc ''approved''))]"

definition hw1_unknown :: "(ustring \<times> json) list" where
  "hw1_unknown =
     [(asc ''homework_name'', JStr (asc ''hw1'')), (asc ''status'', JStr (asc ''lost''))]"

definition boom :: error where
  "boom = Raise OtherException (asc ''boom'')"

definition answer :: "json \<Rightarrow> cycle_input" where
  "answer body =
     \<lparr>http = Response 200 (Some body), try_delivery = Delivered, except_delivery = Delivered\<rparr>"

definition response_hw1 :: json where
  "response_hw1 =
     JDict [(asc ''current_date'', JInt 100), (asc ''homeworks'', JList [JDict hw1_approved])]"

definition response_empty_record :: json where
  "response_empty_record =
     JDict [(asc ''current_date'', JInt 1700000000), (asc ''homeworks'', JList [JDict []])]"

definition response_zero_date :: json where
  "response_zero_date = JDict [(asc ''current_date'', JInt 0), (asc ''homeworks'', JList [])]"

definition response_zero_date_hw1 :: json where
  "response_zero_date_hw1 =
     JDict [(asc ''current_date'', JInt 0), (asc ''homeworks'', JList [JDict hw1_approved])]"

definition response_no_work :: json where
  "response_no_work = JDict [(asc ''current_date'', JInt 200), (asc ''homeworks'', JList [])]"

definition response_no_homeworks :: json where
  "response_no_homeworks = JDict [(asc ''current_date'', JInt 100)]"

definition http_500 :: cycle_input where
  "http_500 =
     \<lparr>http = Response 500 None, try_delivery = Delivered, except_delivery = Delivered\<rparr>"

definition http_500_handler_fails :: cycle_input where
  "http_500_handler_fails =
     \<lparr>http = Response 500 None, try_delivery = Delivered, except_delivery = OtherFailure boom\<rparr>"

text \<open>The state after a first cycle that was answered with HTTP 500 and has notified it.\<close>

definition alerted_state :: poll_state where
  "alerted_state = state (cycle env0 initial_state http_500)"

section \<open>Evaluation rules\<close>

lemma asc_Nil [simp]: "asc [] = []"
  by (simp add: asc_def)

lemma asc_Cons [simp]: "asc (c # cs) = of_char c # asc cs"
  by (simp add: asc_def)

lemmas input_defs =
  env0_def hw1_approved_def hw1_unknown_def boom_def answer_def response_hw1_def
  response_empty_record_def response_zero_date_def response_zero_date_hw1_def
  response_no_work_def
  response_no_homeworks_def http_500_def http_500_handler_fails_def

lemmas step_defs =
  cycle_def try_block_def except_block_def get_api_answer_def check_response_def
  parse_status_def verdict_of_def subscript_def send_message_def dict_get_def py_str_def
  cursor_def diagnostic_def key_error_def quoted_def initial_state_def HOMEWORK_VERDICTS_def
  Let_def

section \<open>Response Validator\<close>

lemma current_date_absent:
  "map_of d (asc ''current_date'') = None \<Longrightarrow>
   check_response (JDict d) = Inl (key_error msg_no_current_date)"
  by (simp add: check_response_def dict_get_def)

lemma current_date_truthy:
  "truthy (dict_get d (asc ''current_date'')) \<Longrightarrow>
   check_response (JDict d) \<noteq> Inl (key_error msg_no_current_date)"
  by (simp add: check_response_def key_error_def split: json.splits list.splits)

text \<open>
  C5. The claim: on a mapping the validator raises the missing-cursor error exactly when the
  key \<open>current_date\<close> is absent, and never when it is present, whatever integer it holds,
  0 included. The code tests the truth value of \<open>response.get('current_date')\<close>: on
  \<open>{"current_date": 0, "homeworks": []}\<close> the key is present and the validator raises the
  \<open>KeyError\<close> whose text says that the key is missing.
\<close>

theorem zero_current_date_reported_missing:
  "map_of [(asc ''current_date'', JInt 0), (asc ''homeworks'', JList [])] (asc ''current_date'')
     = Some (JInt 0)
   \<and> check_response response_zero_date = Inl (key_error msg_no_current_date)"
  by (simp add: check_response_def dict_get_def response_zero_date_def)

text \<open>
  C6, as stated: a mapping with \<open>current_date\<close> and no \<open>homeworks\<close> key gives the no-homework
  outcome. It does not: \<open>{"current_date": 100}\<close> is rejected with the \<open>TypeError\<close> whose text
  names the missing \<open>homeworks\<close> key.
\<close>

theorem missing_homeworks_rejected:
  "map_of [(asc ''current_date'', JInt 100)] (asc ''homeworks'') = None
   \<and> check_response response_no_homeworks = Inl (Raise TypeError msg_bad_homeworks)"
  by (simp add: check_response_def dict_get_def response_no_homeworks_def)

text \<open>
  C6, amended: \<open>homeworks\<close> is required. On a mapping whose \<open>current_date\<close> is present and
  true, the validator fails with the \<open>TypeError\<close> of a malformed response when the key
  \<open>homeworks\<close> is absent, and in general exactly when \<open>response.get('homeworks')\<close> is not a
  list; it returns \<open>None\<close> only for a list that is empty or starts with \<open>null\<close>.
\<close>

theorem homeworks_required:
  assumes "truthy (dict_get d (asc ''current_date''))"
  shows "(map_of d (asc ''homeworks'') = None \<longrightarrow>
            check_response (JDict d) = Inl (Raise TypeError msg_bad_homeworks))
         \<and> (check_response (JDict d) = Inl (Raise TypeError msg_bad_homeworks)
              \<longleftrightarrow> (\<forall>hs. dict_get d (asc ''homeworks'') \<noteq> JList hs))
         \<and> (check_response (JDict d) = Inr JNull
              \<longleftrightarrow> dict_get d (asc ''homeworks'') = JList []
                   \<or> (\<exists>hs. dict_get d (asc ''homeworks'') = JList (JNull # hs)))"
  using assms
  by (auto simp: check_response_def dict_get_def split: json.splits list.splits option.splits)

theorem homeworks_required_witness:
  "truthy (dict_get [(asc ''current_date'', JInt 100)] (asc ''current_date''))
   \<and> check_response (JDict [(asc ''current_date'', JInt 100)])
       = Inl (Raise TypeError msg_bad_homeworks)"
proof -
  have t: "truthy (dict_get [(asc ''current_date'', JInt 100)] (asc ''current_date''))"
    by (simp add: dict_get_def)
  have "map_of [(asc ''current_date'', JInt 100)] (asc ''homeworks'') = None"
    by simp
  with homeworks_required [OF t] t show ?thesis by blast
qed

section \<open>Status Formatter\<close>

lemma verdicts_nonempty_key: "map_of HOMEWORK_VERDICTS [] = None"
  by (simp add: HOMEWORK_VERDICTS_def)

lemma parse_status_known:
  assumes "map_of d (asc ''homework_name'') = Some (JStr n)" and "n \<noteq> []"
      and "map_of d (asc ''status'') = Some (JStr s)"
      and "map_of HOMEWORK_VERDICTS s = Some verdict"
  shows "parse_status e (JDict d) = Inr (msg_status_changed @ n @ [34, 46, 32] @ verdict)"
proof -
  from assms(4) have "s \<noteq> []" using verdicts_nonempty_key by auto
  with assms show ?thesis
    by (simp add: parse_status_def dict_get_def verdict_of_def py_str_def)
qed

lemma parse_status_unknown:
  assumes "map_of d (asc ''homework_name'') = Some (JStr n)" and "n \<noteq> []"
      and "map_of d (asc ''status'') = Some (JStr s)" and "s \<noteq> []"
      and "map_of HOMEWORK_VERDICTS s = None"
  shows "parse_status e (JDict d) = Inl (Raise ValueError msg_bad_status)"
  using assms by (simp add: parse_status_def dict_get_def verdict_of_def)

text \<open>
  C4. For a homework record whose \<open>homework_name\<close> is a non-empty string and whose \<open>status\<close>
  is a string: if the status is a key of \<open>HOMEWORK_VERDICTS\<close>, \<open>parse_status\<close> returns a
  message that contains the name and the text the table maps the status to; if the status is
  non-empty and not a key, it raises the \<open>ValueError\<close> of an unexpected status.
\<close>

theorem parse_status_verdict_table:
  assumes "map_of d (asc ''homework_name'') = Some (JStr n)" and "n \<noteq> []"
      and "map_of d (asc ''status'') = Some (JStr s)"
  shows "(\<forall>verdict. map_of HOMEWORK_VERDICTS s = Some verdict \<longrightarrow>
            (\<exists>m. parse_status e (JDict d) = Inr m \<and> sublist n m \<and> sublist verdict m))
         \<and> (s \<noteq> [] \<and> map_of HOMEWORK_VERDICTS s = None \<longrightarrow>
              parse_status e (JDict d) = Inl (Raise ValueError msg_bad_status))"
proof (intro conjI allI impI)
  fix verdict
  assume v: "map_of HOMEWORK_VERDICTS s = Some verdict"
  let ?m = "msg_status_changed @ n @ [34, 46, 32] @ verdict"
  have "parse_status e (JDict d) = Inr ?m"
    using assms v by (rule parse_status_known)
  moreover have "sublist n ?m"
    by (rule sublist_appendI)
  moreover have "sublist verdict ((msg_status_changed @ n @ [34, 46, 32]) @ verdict @ [])"
    by (rule sublist_appendI)
  then have "sublist verdict ?m" by simp
  ultimately show "\<exists>m. parse_status e (JDict d) = Inr m \<and> sublist n m \<and> sublist verdict m"
    by blast
next
  assume "s \<noteq> [] \<and> map_of HOMEWORK_VERDICTS s = None"
  with assms show "parse_status e (JDict d) = Inl (Raise ValueError msg_bad_status)"
    by (simp add: parse_status_unknown)
qed

theorem parse_status_verdict_table_witness:
  "(\<exists>m. parse_status env0 (JDict hw1_approved) = Inr m \<and> sublist (asc ''hw1'') m
        \<and> sublist verdict_approved m)
   \<and> parse_status env0 (JDict hw1_unknown) = Inl (Raise ValueError msg_bad_status)"
proof -
  have a: "map_of hw1_approved (asc ''homework_name'') = Some (JStr (asc ''hw1''))"
    and b: "asc ''hw1'' \<noteq> []"
    and c: "map_of hw1_approved (asc ''status'') = Some (JStr (asc ''approved''))"
    and v: "map_of HOMEWORK_VERDICTS (asc ''approved'') = Some verdict_approved"
    by (simp_all add: hw1_approved_def HOMEWORK_VERDICTS_def)
  have a': "map_of hw1_unknown (asc ''homework_name'') = Some (JStr (asc ''hw1''))"
    and c': "map_of hw1_unknown (asc ''status'') = Some (JStr (asc ''lost''))"
    and v': "asc ''lost'' \<noteq> [] \<and> map_of HOMEWORK_VERDICTS (asc ''lost'') = None"
    by (simp_all add: hw1_unknown_def HOMEWORK_VERDICTS_def)
  from parse_status_verdict_table [OF a b c, of env0] v
    parse_status_verdict_table [OF a' b c', of env0] v'
  show ?thesis by blast
qed

section \<open>Notifier\<close>

text \<open>
  C8, as stated: whatever the delivery call does, \<open>send_message\<close> returns normally. It does
  not when \<open>bot.send_message\<close> raises an exception that is not a \<open>TelegramError\<close>: the
  \<open>except\<close> clause names that class only, and the exception leaves \<open>send_message\<close>.
\<close>

theorem send_message_propagates_other:
  "snd (send_message env0 (OtherFailure boom) (asc ''hi'')) = Some boom"
  by (simp add: send_message_def)

text \<open>
  C8, amended: when the delivery call returns, or raises a \<open>TelegramError\<close>,
  \<open>send_message\<close> returns normally; it has then logged the delivery at level INFO, or
  the failure at level ERROR with the message and the error's text. An exception of any
  other class that the delivery call raises leaves \<open>send_message\<close>.
\<close>

theorem send_message_swallows_telegram_error:
  "(d = Delivered \<longrightarrow>
      snd (send_message e d message) = None
      \<and> (INFO, log_sent_1 @ message @ log_sent_2 @ str_token (TELEGRAM_CHAT_ID e))
           \<in> set (fst (send_message e d message)))
   \<and> (\<forall>t. d = TelegramError t \<longrightarrow>
          snd (send_message e d message) = None
          \<and> (ERROR, log_fail_1 @ message @ log_fail_2 @ t) \<in> set (fst (send_message e d message)))
   \<and> (\<forall>x. d = OtherFailure x \<longrightarrow> snd (send_message e d message) = Some x)"
  by (cases d) (simp_all add: send_message_def)

theorem send_message_swallows_telegram_error_witness:
  "snd (send_message env0 (TelegramError (asc ''timeout'')) (asc ''hi'')) = None
   \<and> (ERROR, log_fail_1 @ asc ''hi'' @ log_fail_2 @ asc ''timeout'')
        \<in> set (fst (send_message env0 (TelegramError (asc ''timeout'')) (asc ''hi'')))
   \<and> snd (send_message env0 Delivered (asc ''hi'')) = None
   \<and> snd (send_message env0 (OtherFailure boom) (asc ''hi'')) = Some boom"
  using send_message_swallows_telegram_error [of "TelegramError (asc ''timeout'')" env0 "asc ''hi''"]
    send_message_swallows_telegram_error [of Delivered env0 "asc ''hi''"]
    send_message_swallows_telegram_error [of "OtherFailure boom" env0 "asc ''hi''"]
  by blast

section \<open>Poll Loop\<close>

subsection \<open>The parts of a cycle\<close>

lemma cycle_quiet:
  assumes "failure (try_block e st inp) = None"
  shows "cycle e st inp =
           \<lparr>state = state (try_block e st inp),
            trace = trace (try_block e st inp) @ [Sleep RETRY_PERIOD], failure = None\<rparr>"
  using assms by (simp add: cycle_def Let_def)

lemma cycle_caught:
  assumes "failure (try_block e st inp) = Some x"
  shows "cycle e st inp =
           \<lparr>state = state (except_block e (state (try_block e st inp)) (except_delivery inp) x),
            trace = trace (try_block e st inp)
                    @ trace (except_block e (state (try_block e st inp)) (except_delivery inp) x)
                    @ [Sleep RETRY_PERIOD],
            failure = failure (except_block e (state (try_block e st inp)) (except_delivery inp) x)\<rparr>"
  using assms by (simp add: cycle_def Let_def)

lemma try_block_error_state:
  "last_telegram_message (state (try_block e st inp)) = last_telegram_message st"
  by (simp add: try_block_def Let_def split: sum.splits)

lemma try_block_request:
  "\<exists>evs. trace (try_block e st inp) = ApiRequest (cursor e st) # evs"
  by (simp add: try_block_def Let_def split: sum.splits)

lemma parse_status_prefix:
  "parse_status e h = Inr m \<Longrightarrow> \<exists>r. m = msg_status_changed @ r"
  by (auto simp: parse_status_def Let_def split: json.splits if_splits sum.splits option.splits)

lemma try_block_calls:
  "notifier_calls (trace (try_block e st inp)) = []
   \<or> (\<exists>r. notifier_calls (trace (try_block e st inp)) = [msg_status_changed @ r])"
  by (auto simp: try_block_def Let_def split: sum.splits dest: parse_status_prefix)

lemma except_block_suppressed:
  "last_telegram_message st = Some (diagnostic x) \<Longrightarrow>
   except_block e st d x = \<lparr>state = st, trace = [], failure = None\<rparr>"
  by (simp add: except_block_def Let_def)

lemma except_block_sent:
  "last_telegram_message st \<noteq> Some (diagnostic x) \<Longrightarrow> \<forall>y. d \<noteq> OtherFailure y \<Longrightarrow>
   except_block e st d x =
     \<lparr>state = st\<lparr>last_telegram_message := Some (diagnostic x)\<rparr>,
      trace = [NotifierCall (diagnostic x)], failure = None\<rparr>"
  by (cases d) (auto simp: except_block_def Let_def send_message_def)

lemma except_block_raised:
  "last_telegram_message st \<noteq> Some (diagnostic x) \<Longrightarrow>
   except_block e st (OtherFailure y) x =
     \<lparr>state = st, trace = [NotifierCall (diagnostic x)], failure = Some y\<rparr>"
  by (auto simp: except_block_def Let_def send_message_def)

lemma notifier_calls_append:
  "notifier_calls (xs @ ys) = notifier_calls xs @ notifier_calls ys"
  by (induction xs rule: notifier_calls.induct) simp_all

lemma notifier_calls_mem:
  "NotifierCall m \<in> set evs \<longleftrightarrow> m \<in> set (notifier_calls evs)"
  by (induction evs rule: notifier_calls.induct) auto

lemma count_list_append: "count_list (xs @ ys) a = count_list xs a + count_list ys a"
  by (induction xs) simp_all

lemma except_block_calls:
  "notifier_calls (trace (except_block e st d x))
     = (if last_telegram_message st = Some (diagnostic x) then [] else [diagnostic x])"
  by (simp add: except_block_def Let_def split: option.splits)

lemma except_block_recorded:
  "failure (except_block e st d x) = None \<Longrightarrow>
   last_telegram_message (state (except_block e st d x)) = Some (diagnostic x)"
  by (auto simp: except_block_def Let_def split: option.splits if_splits)

lemma except_block_failure:
  "failure (except_block e st d x) = Some y \<Longrightarrow>
   d = OtherFailure y \<and> last_telegram_message st \<noteq> Some (diagnostic x)"
  by (cases d) (auto simp: except_block_def Let_def send_message_def split: if_splits)

lemma cycle_error_recorded:
  assumes "failure (try_block e st inp) = Some x" and "failure (cycle e st inp) = None"
  shows "last_telegram_message (state (cycle e st inp)) = Some (diagnostic x)"
  using assms by (simp add: cycle_caught except_block_recorded)

lemma cycle_error_calls:
  assumes "failure (try_block e st inp) = Some x"
      and "notifier_calls (trace (try_block e st inp)) = []"
  shows "notifier_calls (trace (cycle e st inp))
           = (if last_telegram_message st = Some (diagnostic x) then [] else [diagnostic x])"
  using assms
  by (simp add: cycle_caught notifier_calls_append except_block_calls try_block_error_state)

lemma verdict_message_not_diagnostic: "msg_status_changed @ r \<noteq> diagnostic x"
  by (simp add: msg_status_changed_def diagnostic_def msg_failure_def)

lemma try_block_no_diagnostic:
  "NotifierCall (diagnostic x) \<notin> set (trace (try_block e st inp))"
proof
  assume "NotifierCall (diagnostic x) \<in> set (trace (try_block e st inp))"
  then have "diagnostic x \<in> set (notifier_calls (trace (try_block e st inp)))"
    by (simp add: notifier_calls_mem)
  with try_block_calls [of e st inp] obtain r where "diagnostic x = msg_status_changed @ r"
    by auto
  with verdict_message_not_diagnostic [of r x] show False by simp
qed

lemma try_block_no_sleep: "count_list (trace (try_block e st inp)) (Sleep n) = 0"
  by (simp add: try_block_def Let_def split: sum.splits)

lemma except_block_no_sleep: "count_list (trace (except_block e st d x)) (Sleep n) = 0"
  by (simp add: except_block_def Let_def split: option.splits)

lemma cycle_sleeps_once: "count_list (trace (cycle e st inp)) (Sleep RETRY_PERIOD) = 1"
  by (cases "failure (try_block e st inp)")
     (simp_all add: cycle_quiet cycle_caught count_list_append try_block_no_sleep
        except_block_no_sleep)

lemma cycle_ends_with_sleep: "\<exists>evs. trace (cycle e st inp) = evs @ [Sleep RETRY_PERIOD]"
  by (cases "failure (try_block e st inp)") (simp_all add: cycle_quiet cycle_caught)

lemma cycle_failure:
  assumes "failure (cycle e st inp) = Some y"
  shows "except_delivery inp = OtherFailure y
         \<and> (\<exists>x. failure (try_block e st inp) = Some x
                 \<and> last_telegram_message st \<noteq> Some (diagnostic x))"
proof (cases "failure (try_block e st inp)")
  case None
  with assms show ?thesis by (simp add: cycle_quiet)
next
  case (Some x)
  with assms
  have "failure (except_block e (state (try_block e st inp)) (except_delivery inp) x) = Some y"
    by (simp add: cycle_caught)
  from except_block_failure [OF this] Some show ?thesis
    by (simp add: try_block_error_state)
qed

lemma except_block_cursor:
  "last_check_time (state (except_block e st d x)) = last_check_time st"
  by (simp add: except_block_def Let_def split: option.splits)

lemma cycle_cursor:
  "last_check_time (state (cycle e st inp)) = last_check_time (state (try_block e st inp))"
  by (simp add: cycle_def Let_def except_block_cursor split: option.splits)

lemma cycle_request:
  "\<exists>evs. trace (cycle e st inp) = ApiRequest (cursor e st) # evs"
  using try_block_request [of e st inp]
  by (auto simp: cycle_def Let_def split: option.splits)

subsection \<open>Notification of a verdict\<close>

lemma verdict_key_head:
  "map_of HOMEWORK_VERDICTS s = Some verdict \<Longrightarrow> hd s = 97 \<or> hd s = 114"
  by (auto simp: HOMEWORK_VERDICTS_def split: if_splits)

lemma message_not_stored_status:
  assumes "parse_status e h = Inr m" and "status_stored st"
  shows "JStr m \<noteq> last_homework_status st"
proof -
  from assms(1) obtain r where "m = msg_status_changed @ r"
    using parse_status_prefix by blast
  then have "hd m = 1048" by (simp add: msg_status_changed_def)
  with assms(2) verdict_key_head show ?thesis
    by (fastforce simp: status_stored_def)
qed

lemma parse_status_status:
  assumes "parse_status e h = Inr m"
  shows "\<exists>s verdict. subscript h (asc ''status'') = Inr (JStr s)
                    \<and> map_of HOMEWORK_VERDICTS s = Some verdict"
  using assms
  by (auto simp: parse_status_def verdict_of_def subscript_def dict_get_def Let_def
       split: json.splits if_splits option.splits)

lemma try_block_status_stored:
  "status_stored st \<Longrightarrow> status_stored (state (try_block e st inp))"
  by (auto simp: try_block_def Let_def status_stored_def split: sum.splits
       dest!: parse_status_status)

text \<open>
  Whenever the formatter returns a message, the \<open>try\<close> block hands it to the Notifier: the
  branch that skips an old homework is never taken.
\<close>

lemma verdict_always_notified:
  assumes "status_stored st"
      and "http inp = Response 200 (Some response)"
      and "check_response response = Inr homework" and "truthy homework"
      and "parse_status e homework = Inr message"
  shows "notifier_calls (trace (try_block e st inp)) = [message]"
proof -
  from assms(3) obtain d where r: "response = JDict d"
    by (cases response) (simp_all add: check_response_def)
  with assms(3) have "truthy (dict_get d (asc ''current_date''))"
    by (auto simp: check_response_def Let_def split: if_splits)
  then obtain cd where cd: "subscript response (asc ''current_date'') = Inr cd"
    by (auto simp: r subscript_def dict_get_def split: option.splits)
  from parse_status_status [OF assms(5)] obtain s where
    s: "subscript homework (asc ''status'') = Inr (JStr s)" by blast
  have "status_stored (st\<lparr>last_check_time := cd\<rparr>)"
    using assms(1) by (simp add: status_stored_def)
  from message_not_stored_status [OF assms(5) this]
  have ne: "JStr message \<noteq> last_homework_status st" by simp
  show ?thesis
    using assms(2-5) cd s ne by (simp add: try_block_def get_api_answer_def Let_def)
qed

text \<open>
  C1. The claim: two consecutive cycles that yield the same verdict for the same homework
  invoke the Notifier once. The loop compares the formatted message with
  \<open>last_homework_status\<close> and then stores \<open>homework['status']\<close>, the verdict code, in it; a
  message is never equal to a code, so the comparison never suppresses anything. On
  \<open>{"current_date": 100, "homeworks": [{"homework_name": "hw1", "status": "approved"}]}\<close>
  answered twice in a row, the first cycle stores \<open>approved\<close> and both cycles notify.
\<close>

theorem same_verdict_notified_twice:
  "last_homework_status (state (cycle env0 initial_state (answer response_hw1)))
     = JStr (asc ''approved'')
   \<and> notifier_calls (trace (run env0 initial_state [answer response_hw1, answer response_hw1]))
     = [msg_status_changed @ asc ''hw1'' @ [34, 46, 32] @ verdict_approved,
        msg_status_changed @ asc ''hw1'' @ [34, 46, 32] @ verdict_approved]"
  by (simp add: step_defs input_defs msg_status_changed_def)

subsection \<open>The cursor\<close>

lemma try_block_cursor:
  assumes "http inp = Response 200 (Some (JDict d))"
      and "truthy (dict_get d (asc ''current_date''))"
      and "dict_get d (asc ''homeworks'') = JList (h # hs)" and "truthy h"
  shows "last_check_time (state (try_block e st inp)) = dict_get d (asc ''current_date'')"
  using assms
  by (auto simp: try_block_def get_api_answer_def check_response_def subscript_def dict_get_def
        Let_def split: sum.splits option.splits)

text \<open>
  Where the two truth-value tests let a response through (\<open>current_date\<close> is not zero, the
  first homework is not empty), the cycle sets \<open>last_check_time\<close> to its \<open>current_date\<close>,
  whatever the state before and whatever the formatting and the notification then do, and
  the request of the next cycle carries it.
\<close>

lemma cursor_advance:
  assumes "http inp = Response 200 (Some (JDict d))"
      and "truthy (dict_get d (asc ''current_date''))"
      and "dict_get d (asc ''homeworks'') = JList (h # hs)" and "truthy h"
  shows "last_check_time (state (cycle e st inp)) = dict_get d (asc ''current_date'')
         \<and> (\<exists>evs. trace (cycle e (state (cycle e st inp)) inp')
                    = ApiRequest (dict_get d (asc ''current_date'')) # evs)"
proof -
  have c: "last_check_time (state (cycle e st inp)) = dict_get d (asc ''current_date'')"
    using assms by (simp add: cycle_cursor try_block_cursor)
  then have "cursor e (state (cycle e st inp)) = dict_get d (asc ''current_date'')"
    using assms(2) by (simp add: cursor_def)
  with c cycle_request [of e "state (cycle e st inp)" inp'] show ?thesis by simp
qed

lemma cursor_advance_hw1:
  "http (answer response_hw1) = Response 200 (Some response_hw1)
   \<and> last_check_time (state (cycle env0 initial_state (answer response_hw1))) = JInt 100
   \<and> (\<exists>evs. trace (cycle env0 (state (cycle env0 initial_state (answer response_hw1))) http_500)
              = ApiRequest (JInt 100) # evs)"
proof -
  let ?d = "[(asc ''current_date'', JInt 100), (asc ''homeworks'', JList [JDict hw1_approved])]"
  have a: "http (answer response_hw1) = Response 200 (Some (JDict ?d))"
    by (simp add: answer_def response_hw1_def)
  have b: "truthy (dict_get ?d (asc ''current_date''))"
    by (simp add: dict_get_def)
  have c: "dict_get ?d (asc ''homeworks'') = JList (JDict hw1_approved # [])"
    by (simp add: dict_get_def)
  have d: "truthy (JDict hw1_approved)"
    by (simp add: hw1_approved_def)
  have v: "dict_get ?d (asc ''current_date'') = JInt 100"
    by (simp add: dict_get_def)
  from cursor_advance [OF a b c d, of env0 initial_state http_500] a v
  show ?thesis by (simp add: response_hw1_def)
qed

text \<open>
  The guard \<open>if homework:\<close> of the loop is a truth-value test as well: the validator returns
  the first element of \<open>{"current_date": 1700000000, "homeworks": [{}]}\<close> as the homework,
  and the loop then takes the empty record for no homework and leaves the cursor alone.
\<close>

lemma empty_record_leaves_cursor:
  "check_response response_empty_record = Inr (JDict [])
   \<and> last_check_time (state (cycle env0 initial_state (answer response_empty_record))) = JNull
   \<and> trace (cycle env0 (state (cycle env0 initial_state (answer response_empty_record)))
              (answer response_empty_record))
     = [ApiRequest (JInt 1000), Sleep RETRY_PERIOD]"
  by (simp add: step_defs input_defs)

text \<open>
  C2. The claim: a response that is a mapping with \<open>current_date\<close> present and a non-empty
  \<open>homeworks\<close> list sets \<open>last_check_time\<close> to its \<open>current_date\<close>, and the next request
  carries it. On
  \<open>{"current_date": 0, "homeworks": [{"homework_name": "hw1", "status": "approved"}]}\<close>
  the key is present and the record is complete, but the truth-value test of the validator
  raises the \<open>KeyError\<close> of a missing key before the loop reaches the assignment:
  \<open>last_check_time\<close> stays \<open>None\<close>, the verdict is not notified, and the next request
  carries the start time.
\<close>

theorem zero_date_verdict_leaves_cursor:
  "map_of [(asc ''current_date'', JInt 0), (asc ''homeworks'', JList [JDict hw1_approved])]
      (asc ''current_date'') = Some (JInt 0)
   \<and> failure (try_block env0 initial_state (answer response_zero_date_hw1))
       = Some (key_error msg_no_current_date)
   \<and> last_check_time (state (cycle env0 initial_state (answer response_zero_date_hw1))) = JNull
   \<and> notifier_calls (trace (cycle env0 initial_state (answer response_zero_date_hw1)))
       = [diagnostic (key_error msg_no_current_date)]
   \<and> trace (cycle env0 (state (cycle env0 initial_state (answer response_zero_date_hw1)))
              (answer response_hw1))
       = [ApiRequest (JInt 1000),
          NotifierCall (msg_status_changed @ asc ''hw1'' @ [34, 46, 32] @ verdict_approved),
          Sleep RETRY_PERIOD]"
  by (simp add: step_defs input_defs msg_status_changed_def)

subsection \<open>A cycle without work\<close>

lemma no_work_cycle_inert:
  assumes "http inp = Response 200 (Some (JDict d))"
      and "truthy (dict_get d (asc ''current_date''))"
      and "dict_get d (asc ''homeworks'') = JList []"
  shows "check_response (JDict d) = Inr JNull
         \<and> cycle e st inp
           = \<lparr>state = st, trace = [ApiRequest (cursor e st), Sleep RETRY_PERIOD], failure = None\<rparr>"
  using assms by (simp add: cycle_def try_block_def get_api_answer_def check_response_def Let_def)

text \<open>
  C3. The claim: a response that is a mapping with \<open>current_date\<close> present and an empty
  \<open>homeworks\<close> list is a cycle without error, without notification and without change of
  state. \<open>no_work_cycle_inert\<close> shows it for every true \<open>current_date\<close>. On
  \<open>{"current_date": 0, "homeworks": []}\<close> the truth-value test of the validator raises the
  \<open>KeyError\<close> of a missing key instead: the Notifier is called with the diagnostic message
  and \<open>last_telegram_message\<close> changes.
\<close>

theorem zero_date_no_work_cycle_alerts:
  "failure (try_block env0 initial_state (answer response_zero_date))
     = Some (key_error msg_no_current_date)
   \<and> notifier_calls (trace (cycle env0 initial_state (answer response_zero_date)))
     = [diagnostic (key_error msg_no_current_date)]
   \<and> last_telegram_message (state (cycle env0 initial_state (answer response_zero_date)))
     = Some (diagnostic (key_error msg_no_current_date))"
  by (simp add: step_defs input_defs)

subsection \<open>Notification of an error\<close>

text \<open>
  C7, as stated: every two consecutive cycles that raise an error with the same diagnostic
  message invoke the Notifier exactly once between them. When an outage lasts three cycles,
  the second and the third are such a pair and neither invokes the Notifier: the one
  notification of the three cycles was sent by the first.
\<close>

theorem third_identical_error_silent:
  "failure (try_block env0 alerted_state http_500) = Some (Raise HttpCodeIsNot200 msg_http)
   \<and> state (cycle env0 alerted_state http_500) = alerted_state
   \<and> notifier_calls (trace (run env0 alerted_state [http_500, http_500])) = []
   \<and> notifier_calls (trace (run env0 initial_state [http_500, http_500, http_500]))
       = [diagnostic (Raise HttpCodeIsNot200 msg_http)]"
  by (simp add: step_defs input_defs alerted_state_def)

text \<open>
  C7, amended: take two consecutive cycles that each raise an error before notifying
  anything (in the API call, the validation or the formatting). If their diagnostic messages
  are equal, the Notifier is invoked exactly once across the two cycles when the message
  differs from \<open>last_telegram_message\<close> as it was before the first of them (as it does at
  the start of the program), and not at all when it is equal to it. If the second message
  differs from the first, the second cycle invokes the Notifier with it, and when that call
  returns \<open>last_telegram_message\<close> is the new message.
\<close>

theorem error_notification_suppression:
  assumes f1: "failure (try_block e st i1) = Some x1"
      and q1: "notifier_calls (trace (try_block e st i1)) = []"
      and c1: "failure (cycle e st i1) = None"
      and f2: "failure (try_block e (state (cycle e st i1)) i2) = Some x2"
      and q2: "notifier_calls (trace (try_block e (state (cycle e st i1)) i2)) = []"
  shows "(diagnostic x2 = diagnostic x1 \<longrightarrow>
            notifier_calls (trace (cycle e st i1) @ trace (cycle e (state (cycle e st i1)) i2))
              = (if last_telegram_message st = Some (diagnostic x1) then [] else [diagnostic x1]))
         \<and> (diagnostic x2 \<noteq> diagnostic x1 \<longrightarrow>
              notifier_calls (trace (cycle e (state (cycle e st i1)) i2)) = [diagnostic x2]
              \<and> (failure (cycle e (state (cycle e st i1)) i2) = None \<longrightarrow>
                   last_telegram_message (state (cycle e (state (cycle e st i1)) i2))
                     = Some (diagnostic x2)))"
proof -
  let ?s1 = "state (cycle e st i1)"
  have stored: "last_telegram_message ?s1 = Some (diagnostic x1)"
    using f1 c1 by (rule cycle_error_recorded)
  have first: "notifier_calls (trace (cycle e st i1))
                 = (if last_telegram_message st = Some (diagnostic x1) then [] else [diagnostic x1])"
    using f1 q1 by (rule cycle_error_calls)
  have second: "notifier_calls (trace (cycle e ?s1 i2))
                  = (if diagnostic x1 = diagnostic x2 then [] else [diagnostic x2])"
    using cycle_error_calls [OF f2 q2] stored by simp
  have upd: "failure (cycle e ?s1 i2) = None \<Longrightarrow>
             last_telegram_message (state (cycle e ?s1 i2)) = Some (diagnostic x2)"
    using f2 by (rule cycle_error_recorded)
  from first second upd show ?thesis
    by (simp add: notifier_calls_append)
qed

theorem error_notification_suppression_witness:
  "failure (try_block env0 initial_state http_500) = Some (Raise HttpCodeIsNot200 msg_http)
   \<and> failure (cycle env0 initial_state http_500) = None
   \<and> failure (try_block env0 alerted_state http_500) = Some (Raise HttpCodeIsNot200 msg_http)
   \<and> notifier_calls (trace (cycle env0 initial_state http_500)
                      @ trace (cycle env0 alerted_state http_500))
       = [diagnostic (Raise HttpCodeIsNot200 msg_http)]
   \<and> failure (try_block env0 alerted_state (answer response_no_homeworks))
       = Some (Raise TypeError msg_bad_homeworks)
   \<and> notifier_calls (trace (cycle env0 alerted_state (answer response_no_homeworks)))
       = [diagnostic (Raise TypeError msg_bad_homeworks)]
   \<and> last_telegram_message (state (cycle env0 alerted_state (answer response_no_homeworks)))
       = Some (diagnostic (Raise TypeError msg_bad_homeworks))"
proof -
  let ?x = "Raise HttpCodeIsNot200 msg_http"
  let ?y = "Raise TypeError msg_bad_homeworks"
  let ?s1 = "state (cycle env0 initial_state http_500)"
  have f1: "failure (try_block env0 initial_state http_500) = Some ?x"
    and q1: "notifier_calls (trace (try_block env0 initial_state http_500)) = []"
    and c1: "failure (cycle env0 initial_state http_500) = None"
    by (simp_all add: step_defs input_defs)
  have f2: "failure (try_block env0 ?s1 http_500) = Some ?x"
    and q2: "notifier_calls (trace (try_block env0 ?s1 http_500)) = []"
    by (simp_all add: step_defs input_defs)
  have f3: "failure (try_block env0 ?s1 (answer response_no_homeworks)) = Some ?y"
    and q3: "notifier_calls (trace (try_block env0 ?s1 (answer response_no_homeworks))) = []"
    and c3: "failure (cycle env0 ?s1 (answer response_no_homeworks)) = None"
    by (simp_all add: step_defs input_defs)
  have n: "last_telegram_message initial_state \<noteq> Some (diagnostic ?x)"
    by (simp add: initial_state_def)
  have ne: "diagnostic ?y \<noteq> diagnostic ?x"
    by (simp add: diagnostic_def msg_bad_homeworks_def msg_http_def)
  from error_notification_suppression [OF f1 q1 c1 f2 q2] n
  have same: "notifier_calls (trace (cycle env0 initial_state http_500)
                              @ trace (cycle env0 ?s1 http_500)) = [diagnostic ?x]"
    by simp
  from error_notification_suppression [OF f1 q1 c1 f3 q3] ne c3
  have other: "notifier_calls (trace (cycle env0 ?s1 (answer response_no_homeworks)))
                 = [diagnostic ?y]
               \<and> last_telegram_message (state (cycle env0 ?s1 (answer response_no_homeworks)))
                   = Some (diagnostic ?y)"
    by blast
  from same other f1 c1 f2 f3 show ?thesis
    unfolding alerted_state_def by blast
qed

lemma no_errors_run:
  "no_errors e st inps \<Longrightarrow>
   failure (run e st inps) = None
   \<and> last_telegram_message (state (run e st inps)) = last_telegram_message st"
proof (induction inps arbitrary: st)
  case Nil
  then show ?case by simp
next
  case (Cons inp inps)
  then have q: "failure (try_block e st inp) = None"
    and rest: "no_errors e (state (cycle e st inp)) inps"
    by simp_all
  have "last_telegram_message (state (cycle e st inp)) = last_telegram_message st"
    using q by (simp add: cycle_quiet try_block_error_state)
  moreover have "failure (cycle e st inp) = None"
    using q by (simp add: cycle_quiet)
  ultimately show ?case
    using Cons.IH [OF rest] by (simp add: Let_def)
qed

text \<open>
  C10. An error cycle with diagnostic text E that the loop survives leaves E in
  \<open>last_telegram_message\<close> (E has been notified, in this cycle or before). Any number of
  cycles without error then leave it there, and a later error cycle with the same text E
  does nothing in its \<open>except\<close> block: its trace is that of the \<open>try\<close> block followed by the
  sleep, and the Notifier is not called with E.
\<close>

theorem recurring_error_suppressed:
  assumes "failure (try_block e st i1) = Some x"
      and "failure (cycle e st i1) = None"
      and "no_errors e (state (cycle e st i1)) mids"
      and "failure (try_block e (state (run e (state (cycle e st i1)) mids)) i3) = Some x'"
      and "diagnostic x' = diagnostic x"
  shows "last_telegram_message (state (run e (state (cycle e st i1)) mids)) = Some (diagnostic x)
         \<and> cycle e (state (run e (state (cycle e st i1)) mids)) i3
           = \<lparr>state = state (try_block e (state (run e (state (cycle e st i1)) mids)) i3),
              trace = trace (try_block e (state (run e (state (cycle e st i1)) mids)) i3)
                      @ [Sleep RETRY_PERIOD],
              failure = None\<rparr>
         \<and> NotifierCall (diagnostic x)
             \<notin> set (trace (cycle e (state (run e (state (cycle e st i1)) mids)) i3))"
proof -
  let ?s1 = "state (cycle e st i1)"
  let ?s2 = "state (run e ?s1 mids)"
  have "last_telegram_message ?s1 = Some (diagnostic x)"
    using assms(1,2) by (rule cycle_error_recorded)
  with no_errors_run [OF assms(3)]
  have kept: "last_telegram_message ?s2 = Some (diagnostic x)" by simp
  then have "last_telegram_message (state (try_block e ?s2 i3)) = Some (diagnostic x')"
    using assms(5) by (simp add: try_block_error_state)
  then have c: "cycle e ?s2 i3
           = \<lparr>state = state (try_block e ?s2 i3),
              trace = trace (try_block e ?s2 i3) @ [Sleep RETRY_PERIOD], failure = None\<rparr>"
    using assms(4) by (simp add: cycle_caught except_block_suppressed)
  have "NotifierCall (diagnostic x) \<notin> set (trace (cycle e ?s2 i3))"
    using try_block_no_diagnostic [of x e ?s2 i3] by (simp add: c)
  with kept c show ?thesis by simp
qed

theorem recurring_error_suppressed_witness:
  "failure (try_block env0 initial_state http_500) = Some (Raise HttpCodeIsNot200 msg_http)
   \<and> failure (cycle env0 initial_state http_500) = None
   \<and> no_errors env0 alerted_state [answer response_hw1, answer response_no_work]
   \<and> failure (try_block env0
                (state (run env0 alerted_state [answer response_hw1, answer response_no_work]))
                http_500)
       = Some (Raise HttpCodeIsNot200 msg_http)
   \<and> NotifierCall (diagnostic (Raise HttpCodeIsNot200 msg_http))
       \<notin> set (trace (cycle env0
                      (state (run env0 alerted_state [answer response_hw1, answer response_no_work]))
                      http_500))"
proof -
  let ?x = "Raise HttpCodeIsNot200 msg_http"
  let ?mids = "[answer response_hw1, answer response_no_work]"
  have a: "failure (try_block env0 initial_state http_500) = Some ?x"
    and b: "failure (cycle env0 initial_state http_500) = None"
    by (simp_all add: step_defs input_defs)
  have c: "no_errors env0 (state (cycle env0 initial_state http_500)) ?mids"
    by (simp add: step_defs input_defs msg_status_changed_def)
  have d: "failure (try_block env0
             (state (run env0 (state (cycle env0 initial_state http_500)) ?mids)) http_500) = Some ?x"
    by (simp add: step_defs input_defs)
  from recurring_error_suppressed [OF a b c d refl] a b c d
  show ?thesis unfolding alerted_state_def by blast
qed

subsection \<open>The loop goes on\<close>

lemma run_survives:
  assumes "\<forall>inp \<in> set inps. \<forall>y. except_delivery inp \<noteq> OtherFailure y"
  shows "failure (run e st inps) = None
         \<and> count_list (trace (run e st inps)) (Sleep RETRY_PERIOD) = length inps"
  using assms
proof (induction inps arbitrary: st)
  case Nil
  then show ?case by simp
next
  case (Cons inp inps)
  have ok: "failure (cycle e st inp) = None"
  proof (cases "failure (cycle e st inp)")
    case (Some y)
    from cycle_failure [OF this] Cons.prems show ?thesis by simp
  qed simp
  from Cons.prems have "\<forall>i \<in> set inps. \<forall>y. except_delivery i \<noteq> OtherFailure y" by simp
  from Cons.IH [OF this, of "state (cycle e st inp)"] ok show ?case
    by (simp add: Let_def count_list_append cycle_sleeps_once)
qed

text \<open>
  C9, as stated: no error of a cycle leaves the loop. One does: when the API answers with
  HTTP 500 and the delivery of the diagnostic message raises an exception that is not a
  \<open>TelegramError\<close>, that exception is raised inside the \<open>except\<close> block; the \<open>finally\<close>
  block sleeps and the exception leaves \<open>main\<close>, so the next cycle never starts.
\<close>

theorem handler_failure_leaves_loop:
  "failure (try_block env0 initial_state http_500_handler_fails)
     = Some (Raise HttpCodeIsNot200 msg_http)
   \<and> failure (cycle env0 initial_state http_500_handler_fails) = Some boom
   \<and> run env0 initial_state [http_500_handler_fails, answer response_hw1]
     = \<lparr>state = initial_state,
        trace = [ApiRequest (JInt 1000),
                 NotifierCall (diagnostic (Raise HttpCodeIsNot200 msg_http)),
                 Sleep RETRY_PERIOD],
        failure = Some boom\<rparr>"
  by (simp add: step_defs input_defs)

text \<open>
  C9, amended: every cycle ends with the sleep of \<open>RETRY_PERIOD\<close> seconds, whatever
  happened in it. Every exception raised in the \<open>try\<close> block (by the API call, the
  validation, the formatting or the notification of a verdict) is caught; the only
  exception that leaves a cycle is one that the delivery call raises, outside the
  \<open>TelegramError\<close> classes, while the \<open>except\<close> block notifies a new diagnostic message. In
  a run where no delivery in an \<open>except\<close> block fails that way, no exception leaves the loop
  and every cycle is followed by the next, with one sleep each.
\<close>

theorem loop_survives_cycle_errors:
  "(\<exists>evs. trace (cycle e st inp) = evs @ [Sleep RETRY_PERIOD])
   \<and> (\<forall>y. failure (cycle e st inp) = Some y \<longrightarrow>
          except_delivery inp = OtherFailure y
          \<and> (\<exists>x. failure (try_block e st inp) = Some x
                 \<and> last_telegram_message st \<noteq> Some (diagnostic x)))
   \<and> ((\<forall>i \<in> set inps. \<forall>y. except_delivery i \<noteq> OtherFailure y) \<longrightarrow>
        failure (run e st inps) = None
        \<and> count_list (trace (run e st inps)) (Sleep RETRY_PERIOD) = length inps)"
  using cycle_ends_with_sleep [of e st inp] cycle_failure [of e st inp]
    run_survives [of inps e st]
  by blast

theorem loop_survives_cycle_errors_witness:
  "except_delivery http_500 = Delivered
   \<and> except_delivery (answer response_zero_date) = Delivered
   \<and> failure (run env0 initial_state [http_500, answer response_zero_date]) = None
   \<and> count_list (trace (run env0 initial_state [http_500, answer response_zero_date]))
        (Sleep RETRY_PERIOD) = 2
   \<and> failure (cycle env0 initial_state http_500_handler_fails) = Some boom
   \<and> except_delivery http_500_handler_fails = OtherFailure boom"
proof -
  have h: "\<forall>i \<in> set [http_500, answer response_zero_date]. \<forall>y. except_delivery i \<noteq> OtherFailure y"
    by (simp add: input_defs)
  have f: "failure (cycle env0 initial_state http_500_handler_fails) = Some boom"
    by (simp add: step_defs input_defs)
  have d: "except_delivery http_500 = Delivered"
    "except_delivery (answer response_zero_date) = Delivered"
    by (simp_all add: input_defs)
  from loop_survives_cycle_errors
         [of env0 initial_state http_500_handler_fails "[http_500, answer response_zero_date]"]
       h f d
  show ?thesis by simp
qed

end
